theory Spec2Isabelle
  imports Main "HOL-Library.List_Lexorder"
begin

section \<open>Python exceptions\<close>

text \<open>
  The exceptions that the statements of \<^verbatim>\<open>qt_update_checker.py\<close> can raise.
  \<^verbatim>\<open>HTTPError\<close> is a subclass of \<^verbatim>\<open>URLError\<close>; \<^verbatim>\<open>UnicodeDecodeError\<close>,
  \<^verbatim>\<open>json.JSONDecodeError\<close> and \<^verbatim>\<open>packaging.version.InvalidVersion\<close> are subclasses
  of \<^verbatim>\<open>ValueError\<close>. \<^verbatim>\<open>TimeoutError\<close> stands for the socket errors that
  \<^verbatim>\<open>urlopen\<close> does not wrap into a \<^verbatim>\<open>URLError\<close> (raised while the body is read).
\<close>

datatype py_error =
    HTTPError
  | URLError
  | TimeoutError
  | JSONDecodeError
  | UnicodeDecodeError
  | ValueError
  | InvalidVersion
  | IndexError
  | FileNotFoundError

text \<open>\<^verbatim>\<open>isinstance(e, URLError)\<close>: what \<^verbatim>\<open>except (HTTPError, URLError)\<close> catches.\<close>

fun is_URLError :: "py_error \<Rightarrow> bool" where
  "is_URLError HTTPError = True"
| "is_URLError URLError = True"
| "is_URLError _ = False"

text \<open>\<^verbatim>\<open>isinstance(e, ValueError)\<close>: what \<^verbatim>\<open>suppress(ValueError)\<close> swallows.\<close>

fun is_ValueError :: "py_error \<Rightarrow> bool" where
  "is_ValueError ValueError = True"
| "is_ValueError UnicodeDecodeError = True"
| "is_ValueError JSONDecodeError = True"
| "is_ValueError InvalidVersion = True"
| "is_ValueError _ = False"

section \<open>The two release catalogs\<close>

text \<open>
  \<^verbatim>\<open>urlopen(url)\<close> followed by \<^verbatim>\<open>json.load(r)\<close> either raises or gives the decoded
  body. The body of the tags endpoint is an array of objects; of each object only
  \<^verbatim>\<open>item.get('name', None)\<close> is read, so an item is the value of that lookup:
  \<open>None\<close> when the key is missing (or null), otherwise the string.
\<close>

type_synonym tag_item = "string option"

text \<open>\<^verbatim>\<open>version.startswith('v')\<close>\<close>

fun startswith_v :: "string \<Rightarrow> bool" where
  "startswith_v [] = False"
| "startswith_v (c # cs) = (c = CHR ''v'')"

text \<open>
  The \<^verbatim>\<open>for item in data\<close> loop of \<^verbatim>\<open>github_tags\<close>, with the list \<^verbatim>\<open>versions\<close>
  as accumulator. \<^verbatim>\<open>if version:\<close> is false for \<^verbatim>\<open>None\<close> and for the empty string;
  \<^verbatim>\<open>version[1:]\<close> drops the first character.
\<close>

fun github_tags_loop :: "string list \<Rightarrow> tag_item list \<Rightarrow> string list" where
  "github_tags_loop versions [] = versions"
| "github_tags_loop versions (None # data) = github_tags_loop versions data"
| "github_tags_loop versions (Some version # data) =
     (if version = [] then github_tags_loop versions data
      else github_tags_loop
             (versions @ [if startswith_v version then drop 1 version else version]) data)"

definition github_tags :: "py_error + tag_item list \<Rightarrow> py_error + string list" where
  "github_tags response =
     (case response of
        Inl e \<Rightarrow> Inl e
      | Inr data \<Rightarrow> Inr (rev (github_tags_loop [] data)))"

text \<open>
  \<^verbatim>\<open>conda_forge_releases\<close>: the body is an object, and
  \<^verbatim>\<open>data.get('versions', [])\<close> is the list under the key, or \<^verbatim>\<open>[]\<close> when the key is
  missing (\<open>None\<close>).
\<close>

definition conda_forge_releases :: "py_error + string list option \<Rightarrow> py_error + string list" where
  "conda_forge_releases response =
     (case response of
        Inl e \<Rightarrow> Inl e
      | Inr data \<Rightarrow> Inr (case data of None \<Rightarrow> [] | Some versions \<Rightarrow> versions))"

section \<open>The aggregator\<close>

text \<open>\<^verbatim>\<open>xs[-1]\<close>: the last element, \<^verbatim>\<open>IndexError\<close> on the empty list.\<close>

definition py_last :: "'a list \<Rightarrow> py_error + 'a" where
  "py_last xs = (if xs = [] then Inl IndexError else Inr (last xs))"

text \<open>
  What one run of the generator \<^verbatim>\<open>get_latest_version\<close> does: the arguments of its
  calls of \<^verbatim>\<open>show_warning\<close>, the values it yields, and the exception that leaves it
  (\<open>None\<close> when it returns).
\<close>

record 'v generator_run =
  warnings :: "string list"
  yielded :: "'v list"
  raised :: "py_error option"

definition network_warning :: string where
  "network_warning =
     ''Plugin manager: There seems to be an issue with network connectivity. ''"

definition run_warning :: "'v generator_run" where
  "run_warning = \<lparr>warnings = [network_warning], yielded = [], raised = None\<rparr>"

definition run_raise :: "py_error \<Rightarrow> 'v generator_run" where
  "run_raise e = \<lparr>warnings = [], yielded = [], raised = Some e\<rparr>"

definition run_yield :: "'v \<Rightarrow> 'v generator_run" where
  "run_yield v = \<lparr>warnings = [], yielded = [v], raised = None\<rparr>"

text \<open>
  The \<^verbatim>\<open>try\<close> block: both calls are submitted, the \<^verbatim>\<open>with\<close> block waits for both,
  then \<^verbatim>\<open>tags.result()\<close> re-raises the exception of \<^verbatim>\<open>github_tags\<close> if there is one,
  and only then \<^verbatim>\<open>cf.result()\<close> that of \<^verbatim>\<open>conda_forge_releases\<close>.
\<close>

definition fetch_both ::
  "py_error + string list \<Rightarrow> py_error + string list \<Rightarrow> py_error + string list \<times> string list" where
  "fetch_both tags cf =
     (case tags of
        Inl e \<Rightarrow> Inl e
      | Inr gh_tags \<Rightarrow>
          (case cf of
             Inl e \<Rightarrow> Inl e
           | Inr cf_versions \<Rightarrow> Inr (gh_tags, cf_versions)))"

text \<open>
  \<^verbatim>\<open>packaging.version.parse\<close> and the comparison of \<^verbatim>\<open>Version\<close> objects belong to
  the \<^verbatim>\<open>packaging\<close> library, so they are parameters: \<open>parse\<close> gives a version or
  raises, and \<^verbatim>\<open>a > b\<close> compares \<open>vkey a\<close> and \<open>vkey b\<close> (the library compares the
  \<^verbatim>\<open>_key\<close> tuples of the two objects). The lines after the \<^verbatim>\<open>try\<close> block:
  \<^verbatim>\<open>cf_versions[-1]\<close> is read and parsed first, then \<^verbatim>\<open>gh_tags[-1]\<close>.
\<close>

definition compare_latest ::
  "(string \<Rightarrow> py_error + 'v) \<Rightarrow> ('v \<Rightarrow> 'k::linorder) \<Rightarrow> string list \<Rightarrow> string list
     \<Rightarrow> 'v generator_run" where
  "compare_latest parse vkey gh_tags cf_versions =
     (case py_last cf_versions of
        Inl e \<Rightarrow> run_raise e
      | Inr cf_last \<Rightarrow>
          (case parse cf_last of
             Inl e \<Rightarrow> run_raise e
           | Inr latest_version \<Rightarrow>
               (case py_last gh_tags of
                  Inl e \<Rightarrow> run_raise e
                | Inr gh_last \<Rightarrow>
                    (case parse gh_last of
                       Inl e \<Rightarrow> run_raise e
                     | Inr latest_tag \<Rightarrow>
                         (if vkey latest_version > vkey latest_tag
                          then run_yield latest_version
                          else run_yield latest_tag)))))"

definition get_latest_version ::
  "(string \<Rightarrow> py_error + 'v) \<Rightarrow> ('v \<Rightarrow> 'k::linorder)
     \<Rightarrow> py_error + string list \<Rightarrow> py_error + string list \<Rightarrow> 'v generator_run" where
  "get_latest_version parse vkey tags cf =
     (case fetch_both tags cf of
        Inl e \<Rightarrow> (if is_URLError e then run_warning else run_raise e)
      | Inr (gh_tags, cf_versions) \<Rightarrow> compare_latest parse vkey gh_tags cf_versions)"

section \<open>The snooze record\<close>

definition IGNORE_DAYS :: int where
  "IGNORE_DAYS = 21"

text \<open>
  The file \<^verbatim>\<open>ignore.txt\<close> under \<^verbatim>\<open>self._base_folder\<close>: the folder may be missing,
  or exist without the file, or hold it. The bytes of the file either decode as UTF-8
  to a text or they do not.
\<close>

datatype file_content = Text string | Undecodable

datatype folder = NoFolder | Folder "file_content option"

text \<open>\<^verbatim>\<open>os.path.exists(os.path.join(self._base_folder, IGNORE_FILE))\<close>\<close>

fun ignore_file :: "folder \<Rightarrow> file_content option" where
  "ignore_file NoFolder = None"
| "ignore_file (Folder f) = f"

text \<open>\<^verbatim>\<open>f_p.read()\<close> on a file opened with \<^verbatim>\<open>encoding="utf-8"\<close>\<close>

fun read_text :: "file_content \<Rightarrow> py_error + string" where
  "read_text (Text s) = Inr s"
| "read_text Undecodable = Inl UnicodeDecodeError"

text \<open>\<^verbatim>\<open>os.remove\<close> of the file, once \<^verbatim>\<open>os.path.exists\<close> has answered true.\<close>

fun os_remove :: "folder \<Rightarrow> folder" where
  "os_remove NoFolder = NoFolder"
| "os_remove (Folder f) = Folder None"

text \<open>\<^verbatim>\<open>os.makedirs(self._base_folder, exist_ok=True)\<close>\<close>

fun os_makedirs :: "folder \<Rightarrow> folder" where
  "os_makedirs NoFolder = Folder None"
| "os_makedirs (Folder f) = Folder f"

text \<open>\<^verbatim>\<open>open(path, "w", encoding="utf-8")\<close> followed by \<^verbatim>\<open>f_p.write(s)\<close>\<close>

fun write_text :: "string \<Rightarrow> folder \<Rightarrow> py_error + folder" where
  "write_text s NoFolder = Inl FileNotFoundError"
| "write_text s (Folder f) = Inr (Folder (Some (Text s)))"

text \<open>
  The widget: the fields of \<^verbatim>\<open>UpdateChecker\<close> that the check reads and writes, the
  text of its label, and what the user has been shown: the modal dialogs (by their
  text) and the warnings. The folder of the snooze record is carried along.
\<close>

record 'v update_checker =
  current_version :: 'v
  snoozed :: bool
  label_text :: string
  dialogs :: "string list"
  shown_warnings :: "string list"
  base_folder :: folder

text \<open>
  \<^verbatim>\<open>__init__\<close>: the installed version is \<^verbatim>\<open>packaging.version.parse(__version__)\<close>,
  \<^verbatim>\<open>self._snoozed\<close> is false and the label shows the first text.
\<close>

definition init_checker :: "'v \<Rightarrow> folder \<Rightarrow> 'v update_checker" where
  "init_checker installed fs =
     \<lparr>current_version = installed, snoozed = False,
      label_text = ''Checking for updates...<br>'', dialogs = [], shown_warnings = [],
      base_folder = fs\<rparr>"

text \<open>
  \<^verbatim>\<open>datetime.date\<close> belongs to the standard library, so its three operations are
  parameters: \<open>fromisoformat\<close> gives a date or raises, \<open>toordinal\<close> numbers the days
  (\<^verbatim>\<open>(a - b).days\<close> is the difference of the two ordinals), \<open>isoformat\<close> prints.
\<close>

record 'd date_api =
  fromisoformat :: "string \<Rightarrow> py_error + 'd"
  toordinal :: "'d \<Rightarrow> int"
  isoformat :: "'d \<Rightarrow> string"

text \<open>
  The body of the \<^verbatim>\<open>with\<close> block of \<^verbatim>\<open>_check_time\<close>: it raises, or it ends with
  \<^verbatim>\<open>self._snoozed\<close> assigned; the boolean says whether \<^verbatim>\<open>return True\<close> was reached.
\<close>

definition check_time_body ::
  "'d date_api \<Rightarrow> 'd \<Rightarrow> file_content \<Rightarrow> 'v update_checker
     \<Rightarrow> py_error + bool \<times> 'v update_checker" where
  "check_time_body D today f st =
     (case read_text f of
        Inl e \<Rightarrow> Inl e
      | Inr s \<Rightarrow>
          (case fromisoformat D s of
             Inl e \<Rightarrow> Inl e
           | Inr old_date \<Rightarrow>
               (let fresh = (toordinal D today - toordinal D old_date < IGNORE_DAYS)
                in Inr (fresh, st\<lparr>snoozed := fresh\<rparr>))))"

text \<open>
  \<^verbatim>\<open>_check_time\<close>: \<^verbatim>\<open>suppress(ValueError)\<close> swallows a \<^verbatim>\<open>ValueError\<close> of the body
  and execution goes on after the \<^verbatim>\<open>with\<close> block, at \<^verbatim>\<open>os.remove\<close>; any other
  exception leaves the method. The result is the returned boolean and the widget.
\<close>

definition check_time ::
  "'d date_api \<Rightarrow> 'd \<Rightarrow> 'v update_checker \<Rightarrow> py_error + bool \<times> 'v update_checker" where
  "check_time D today st =
     (case ignore_file (base_folder st) of
        None \<Rightarrow> Inr (False, st)
      | Some f \<Rightarrow>
          (case check_time_body D today f st of
             Inl e \<Rightarrow>
               (if is_ValueError e
                then Inr (False, st\<lparr>base_folder := os_remove (base_folder st)\<rparr>)
                else Inl e)
           | Inr (fresh, st') \<Rightarrow>
               (if fresh then Inr (True, st')
                else Inr (False, st'\<lparr>base_folder := os_remove (base_folder st')\<rparr>))))"

section \<open>Showing the result\<close>

definition URL_PACKAGE :: string where
  "URL_PACKAGE =
     ''https://napari.org/dev/tutorials/fundamentals/installation.html#install-as-python-package-recommended''"

definition URL_BUNDLE :: string where
  "URL_BUNDLE =
     ''https://napari.org/dev/tutorials/fundamentals/installation.html#install-as-a-bundled-app''"

text \<open>The two texts of \<^verbatim>\<open>show_version_info\<close>; \<open>CHR 0x22\<close> is the double quote.\<close>

definition outdated_msg :: "string \<Rightarrow> string \<Rightarrow> string \<Rightarrow> string" where
  "outdated_msg my_version remote_version url =
     ''You use outdated version of napari.<br><br>''
     @ ''Installed version: '' @ my_version @ ''<br>''
     @ ''Current version: '' @ remote_version @ ''<br><br>''
     @ ''For more information on how to update <br>''
     @ ''visit the <a href='' @ [CHR 0x22] @ url @ [CHR 0x22]
     @ ''>online documentation</a><br><br>''"

definition latest_msg :: "string \<Rightarrow> string" where
  "latest_msg my_version =
     ''You are using the latest version of napari!<br><br>''
     @ ''Installed version: '' @ my_version @ ''<br><br>''"

text \<open>The button that \<^verbatim>\<open>message.exec_()\<close> returns.\<close>

datatype button = Ok | Ignore

text \<open>
  The statements under \<^verbatim>\<open>if message.exec_() == QMessageBox.StandardButton.Ignore\<close>:
  \<^verbatim>\<open>os.makedirs\<close>, then the file is opened for writing and
  \<^verbatim>\<open>date.today().isoformat()\<close> is written.
\<close>

definition snooze :: "'d date_api \<Rightarrow> 'd \<Rightarrow> folder \<Rightarrow> py_error + folder" where
  "snooze D today fs = write_text (isoformat D today) (os_makedirs fs)"

text \<open>
  \<^verbatim>\<open>show_version_info\<close>. \<open>vkey\<close> compares versions as in \<open>compare_latest\<close>, \<open>vstr\<close>
  is \<^verbatim>\<open>str\<close> of a version (used by the f-strings), \<open>on_bundle\<close> is \<^verbatim>\<open>ON_BUNDLE\<close>,
  \<open>answer\<close> is what the user clicks if the dialog opens.
\<close>

definition show_version_info ::
  "('v \<Rightarrow> 'k::linorder) \<Rightarrow> ('v \<Rightarrow> string) \<Rightarrow> 'd date_api \<Rightarrow> bool \<Rightarrow> 'd \<Rightarrow> button
     \<Rightarrow> 'v update_checker \<Rightarrow> 'v \<Rightarrow> py_error + 'v update_checker" where
  "show_version_info vkey vstr D on_bundle today answer st latest_version =
     (let my_version = current_version st; remote_version = latest_version in
      if vkey remote_version > vkey my_version then
        (let url = (if on_bundle then URL_BUNDLE else URL_PACKAGE);
             msg = outdated_msg (vstr my_version) (vstr remote_version) url;
             st1 = st\<lparr>label_text := msg\<rparr>
         in if \<not> snoozed st1 then
              (let st2 = st1\<lparr>dialogs := dialogs st1 @ [msg]\<rparr> in
               if answer = Ignore then
                 (case snooze D today (base_folder st2) of
                    Inl e \<Rightarrow> Inl e
                  | Inr fs \<Rightarrow> Inr (st2\<lparr>base_folder := fs\<rparr>))
               else Inr st2)
            else Inr st1)
      else Inr (st\<lparr>label_text := latest_msg (vstr my_version)\<rparr>))"

text \<open>
  \<^verbatim>\<open>check\<close>: \<^verbatim>\<open>_check_time\<close> runs first and its result is dropped; then the worker
  runs the generator and every value it yields is handed to \<^verbatim>\<open>show_version_info\<close>.
  A warning of the generator reaches the user; an exception that leaves the generator
  stays in the worker and nothing is shown for it.
\<close>

fun deliver ::
  "('v \<Rightarrow> 'k::linorder) \<Rightarrow> ('v \<Rightarrow> string) \<Rightarrow> 'd date_api \<Rightarrow> bool \<Rightarrow> 'd \<Rightarrow> button
     \<Rightarrow> 'v update_checker \<Rightarrow> 'v list \<Rightarrow> py_error + 'v update_checker" where
  "deliver vkey vstr D on_bundle today answer st [] = Inr st"
| "deliver vkey vstr D on_bundle today answer st (v # vs) =
     (case show_version_info vkey vstr D on_bundle today answer st v of
        Inl e \<Rightarrow> Inl e
      | Inr st' \<Rightarrow> deliver vkey vstr D on_bundle today answer st' vs)"

definition check ::
  "(string \<Rightarrow> py_error + 'v) \<Rightarrow> ('v \<Rightarrow> 'k::linorder) \<Rightarrow> ('v \<Rightarrow> string) \<Rightarrow> 'd date_api
     \<Rightarrow> bool \<Rightarrow> 'd \<Rightarrow> button \<Rightarrow> py_error + string list \<Rightarrow> py_error + string list
     \<Rightarrow> 'v update_checker \<Rightarrow> py_error + 'v update_checker" where
  "check parse vkey vstr D on_bundle today answer tags cf st =
     (case check_time D today st of
        Inl e \<Rightarrow> Inl e
      | Inr (_, st1) \<Rightarrow>
          (let run = get_latest_version parse vkey tags cf;
               st2 = st1\<lparr>shown_warnings := shown_warnings st1 @ warnings run\<rparr>
           in deliver vkey vstr D on_bundle today answer st2 (yielded run)))"

section \<open>An instance of the library parameters\<close>

text \<open>
  For evaluating the definitions on concrete strings: the versions of the form
  \<^verbatim>\<open>N(.N)*\<close> with an optional leading \<^verbatim>\<open>v\<close>, which is the release-only part of what
  \<^verbatim>\<open>packaging.version.parse\<close> accepts (the library also accepts epochs, pre-, post-
  and development releases and local labels; this instance rejects them, and it is
  only evaluated on release-only strings and on strings that the library rejects
  too). A version is its release tuple; two
  versions compare by their release tuples without trailing zeros, so that
  \<^verbatim>\<open>0.5\<close> and \<^verbatim>\<open>0.5.0\<close> are equal as versions and print differently.
\<close>

definition is_digit :: "char \<Rightarrow> bool" where
  "is_digit c = (48 \<le> (of_char c :: nat) \<and> (of_char c :: nat) \<le> 57)"

fun digits_value :: "nat \<Rightarrow> string \<Rightarrow> nat" where
  "digits_value acc [] = acc"
| "digits_value acc (c # cs) = digits_value (10 * acc + (of_char c - 48)) cs"

definition parse_number :: "string \<Rightarrow> nat option" where
  "parse_number s = (if s \<noteq> [] \<and> list_all is_digit s then Some (digits_value 0 s) else None)"

text \<open>\<^verbatim>\<open>s.split('.')\<close>, with the current piece as accumulator.\<close>

fun split_dots :: "string \<Rightarrow> string \<Rightarrow> string list" where
  "split_dots piece [] = [piece]"
| "split_dots piece (c # cs) =
     (if c = CHR ''.'' then piece # split_dots [] cs else split_dots (piece @ [c]) cs)"

definition parse_release :: "string \<Rightarrow> py_error + nat list" where
  "parse_release s =
     (let numbers = map parse_number (split_dots [] (if startswith_v s then drop 1 s else s))
      in if list_all (\<lambda>n. n \<noteq> None) numbers then Inr (map the numbers)
         else Inl InvalidVersion)"

definition release_key :: "nat list \<Rightarrow> nat list" where
  "release_key release = rev (dropWhile (\<lambda>n. n = 0) (rev release))"

definition digit_char :: "nat \<Rightarrow> char" where
  "digit_char d = ''0123456789'' ! d"

fun show_nat :: "nat \<Rightarrow> string" where
  "show_nat n = (if n < 10 then [digit_char n] else show_nat (n div 10) @ [digit_char (n mod 10)])"

fun join_dots :: "string list \<Rightarrow> string" where
  "join_dots [] = []"
| "join_dots [s] = s"
| "join_dots (s # t # ss) = s @ ''.'' @ join_dots (t # ss)"

definition release_str :: "nat list \<Rightarrow> string" where
  "release_str release = join_dots (map show_nat release)"

text \<open>
  Dates as year, month and day, with the day numbering of the proleptic Gregorian
  calendar (1 January of year 1 is day 1), \<^verbatim>\<open>YYYY-MM-DD\<close> as the only accepted
  format and the same format printed.
\<close>

datatype ymd = Date nat nat nat

definition is_leap :: "nat \<Rightarrow> bool" where
  "is_leap y = (y mod 4 = 0 \<and> (y mod 100 \<noteq> 0 \<or> y mod 400 = 0))"

definition days_in_month :: "nat \<Rightarrow> nat \<Rightarrow> nat" where
  "days_in_month y m =
     (if m = 2 then (if is_leap y then 29 else 28)
      else if m = 4 \<or> m = 6 \<or> m = 9 \<or> m = 11 then 30 else 31)"

definition days_before_year :: "nat \<Rightarrow> nat" where
  "days_before_year y = (y - 1) * 365 + (y - 1) div 4 - (y - 1) div 100 + (y - 1) div 400"

definition days_before_month :: "nat \<Rightarrow> nat \<Rightarrow> nat" where
  "days_before_month y m = sum_list (map (days_in_month y) [1..<m])"

fun ymd_toordinal :: "ymd \<Rightarrow> int" where
  "ymd_toordinal (Date y m d) = int (days_before_year y + days_before_month y m + d)"

definition pad :: "nat \<Rightarrow> string \<Rightarrow> string" where
  "pad w s = replicate (w - length s) CHR ''0'' @ s"

fun ymd_isoformat :: "ymd \<Rightarrow> string" where
  "ymd_isoformat (Date y m d) =
     pad 4 (show_nat y) @ ''-'' @ pad 2 (show_nat m) @ ''-'' @ pad 2 (show_nat d)"

definition ymd_fromisoformat :: "string \<Rightarrow> py_error + ymd" where
  "ymd_fromisoformat s =
     (if length s = 10 \<and> s ! 4 = CHR ''-'' \<and> s ! 7 = CHR ''-'' then
        (case (parse_number (take 4 s), parse_number (take 2 (drop 5 s)),
               parse_number (drop 8 s)) of
           (Some y, Some m, Some d) \<Rightarrow>
             (if 1 \<le> y \<and> 1 \<le> m \<and> m \<le> 12 \<and> 1 \<le> d \<and> d \<le> days_in_month y m
              then Inr (Date y m d) else Inl ValueError)
         | _ \<Rightarrow> Inl ValueError)
      else Inl ValueError)"

definition ymd_api :: "ymd date_api" where
  "ymd_api = \<lparr>fromisoformat = ymd_fromisoformat, toordinal = ymd_toordinal,
              isoformat = ymd_isoformat\<rparr>"

section \<open>Auxiliary facts\<close>

lemmas aggregator_defs =
  get_latest_version_def fetch_both_def compare_latest_def py_last_def

lemmas instance_defs =
  parse_release_def parse_number_def is_digit_def release_key_def release_str_def digit_char_def

lemmas date_defs =
  ymd_api_def ymd_fromisoformat_def parse_number_def is_digit_def
  days_in_month_def is_leap_def days_before_year_def days_before_month_def pad_def
  digit_char_def upt_rec

lemmas check_defs =
  check_def check_time_def check_time_body_def IGNORE_DAYS_def init_checker_def
  github_tags_def conda_forge_releases_def run_yield_def show_version_info_def Let_def

text \<open>The loop only ever appends to its accumulator.\<close>

lemma github_tags_loop_acc:
  "github_tags_loop versions data = versions @ github_tags_loop [] data"
proof (induction data arbitrary: versions)
  case Nil
  show ?case by simp
next
  case (Cons item data)
  show ?case
  proof (cases item)
    case None
    then show ?thesis using Cons.IH [of versions] by simp
  next
    case (Some version)
    show ?thesis
    proof (cases "version = []")
      case True
      with Some show ?thesis using Cons.IH [of versions] by simp
    next
      case False
      define x where "x = (if startswith_v version then drop 1 version else version)"
      have "github_tags_loop versions (item # data) = github_tags_loop (versions @ [x]) data"
        using False Some by (simp add: x_def)
      also have "\<dots> = (versions @ [x]) @ github_tags_loop [] data"
        by (rule Cons.IH)
      also have "\<dots> = versions @ github_tags_loop [x] data"
        using Cons.IH [of "[x]"] by simp
      also have "github_tags_loop [x] data = github_tags_loop [] (item # data)"
        using False Some by (simp add: x_def)
      finally show ?thesis .
    qed
  qed
qed

lemma github_tags_v:
  "github_tags (Inr (Some (CHR ''v'' # s) # data)) = Inr (rev (github_tags_loop [] data) @ [s])"
  using github_tags_loop_acc [of "[s]" data] by (simp add: github_tags_def)

lemma github_tags_plain:
  "s \<noteq> [] \<Longrightarrow> \<not> startswith_v s \<Longrightarrow>
   github_tags (Inr (Some s # data)) = Inr (rev (github_tags_loop [] data) @ [s])"
  using github_tags_loop_acc [of "[s]" data] by (simp add: github_tags_def)

lemma ignore_file_Some: "ignore_file fs = Some f \<Longrightarrow> fs = Folder (Some f)"
  by (cases fs) simp_all

text \<open>Whatever the folder held, after the snooze action it holds the date and nothing else.\<close>

lemma snooze_writes: "snooze D today fs = Inr (Folder (Some (Text (isoformat D today))))"
  by (cases fs) (simp_all add: snooze_def)

lemma show_version_info_outdated:
  assumes "vkey (current_version st) < vkey latest"
  shows "show_version_info vkey vstr D on_bundle today answer st latest =
     Inr (if snoozed st
          then st\<lparr>label_text := outdated_msg (vstr (current_version st)) (vstr latest)
                                  (if on_bundle then URL_BUNDLE else URL_PACKAGE)\<rparr>
          else if answer = Ignore
          then st\<lparr>label_text := outdated_msg (vstr (current_version st)) (vstr latest)
                                  (if on_bundle then URL_BUNDLE else URL_PACKAGE),
                  dialogs := dialogs st @ [outdated_msg (vstr (current_version st)) (vstr latest)
                                  (if on_bundle then URL_BUNDLE else URL_PACKAGE)],
                  base_folder := Folder (Some (Text (isoformat D today)))\<rparr>
          else st\<lparr>label_text := outdated_msg (vstr (current_version st)) (vstr latest)
                                  (if on_bundle then URL_BUNDLE else URL_PACKAGE),
                  dialogs := dialogs st @ [outdated_msg (vstr (current_version st)) (vstr latest)
                                  (if on_bundle then URL_BUNDLE else URL_PACKAGE)]\<rparr>)"
  using assms by (simp add: snooze_writes show_version_info_def Let_def)

lemma check_example:
  "check parse_release release_key release_str ymd_api False (Date 2024 1 15) Ok
        (github_tags (Inr [Some ''v0.4.5'', Some ''v0.4.4'']))
        (conda_forge_releases (Inr (Some [''0.4.2'', ''0.4.3''])))
        (init_checker [0, 4, 0] (Folder None))
      = Inr ((init_checker [0, 4, 0] (Folder None))
              \<lparr>label_text := outdated_msg ''0.4.0'' ''0.4.5'' URL_PACKAGE,
               dialogs := [outdated_msg ''0.4.0'' ''0.4.5'' URL_PACKAGE]\<rparr>)"
  by (simp add: check_defs aggregator_defs instance_defs)

section \<open>The aggregator selects the greater version\<close>

text \<open>
  Claim C1. When both fetches succeed and the last element of each list parses,
  \<^verbatim>\<open>get_latest_version\<close> yields exactly one value, which is one of the two parsed
  versions and whose comparison key is the greater of the two keys, whichever source
  it came from; it shows no warning and raises nothing. End to end: with the
  installed version \<^verbatim>\<open>0.4.0\<close>, the tags \<^verbatim>\<open>v0.4.5\<close>, \<^verbatim>\<open>v0.4.4\<close> (newest first, as the tags
  endpoint lists them) and the conda-forge versions \<^verbatim>\<open>0.4.2\<close>, \<^verbatim>\<open>0.4.3\<close>, one check
  on a widget that is not snoozed sets the label to the update text with current
  version \<^verbatim>\<open>0.4.5\<close> and opens the dialog with the same text.
\<close>

theorem get_latest_version_selects_greater:
  assumes "gh_tags \<noteq> []" and "cf_versions \<noteq> []"
    and "parse (last cf_versions) = Inr latest_version"
    and "parse (last gh_tags) = Inr latest_tag"
  shows "(\<exists>v. get_latest_version parse vkey (Inr gh_tags) (Inr cf_versions) = run_yield v
            \<and> (v = latest_version \<or> v = latest_tag)
            \<and> vkey v = max (vkey latest_version) (vkey latest_tag))
      \<and> parse_release ''0.4.0'' = Inr [0, 4, 0]
      \<and> check parse_release release_key release_str ymd_api False (Date 2024 1 15) Ok
        (github_tags (Inr [Some ''v0.4.5'', Some ''v0.4.4'']))
        (conda_forge_releases (Inr (Some [''0.4.2'', ''0.4.3''])))
        (init_checker [0, 4, 0] (Folder None))
      = Inr ((init_checker [0, 4, 0] (Folder None))
              \<lparr>label_text := outdated_msg ''0.4.0'' ''0.4.5'' URL_PACKAGE,
               dialogs := [outdated_msg ''0.4.0'' ''0.4.5'' URL_PACKAGE]\<rparr>)"
proof (intro conjI)
  show "\<exists>v. get_latest_version parse vkey (Inr gh_tags) (Inr cf_versions) = run_yield v
            \<and> (v = latest_version \<or> v = latest_tag)
            \<and> vkey v = max (vkey latest_version) (vkey latest_tag)"
    using assms by (auto simp: aggregator_defs max_def)
  show "parse_release ''0.4.0'' = Inr [0, 4, 0]"
    by (simp add: instance_defs)
  show "check parse_release release_key release_str ymd_api False (Date 2024 1 15) Ok
        (github_tags (Inr [Some ''v0.4.5'', Some ''v0.4.4'']))
        (conda_forge_releases (Inr (Some [''0.4.2'', ''0.4.3''])))
        (init_checker [0, 4, 0] (Folder None))
      = Inr ((init_checker [0, 4, 0] (Folder None))
              \<lparr>label_text := outdated_msg ''0.4.0'' ''0.4.5'' URL_PACKAGE,
               dialogs := [outdated_msg ''0.4.0'' ''0.4.5'' URL_PACKAGE]\<rparr>)"
    by (rule check_example)
qed

theorem get_latest_version_selects_greater_witness:
  "[''0.4.4'', ''0.4.5''] \<noteq> [] \<and> [''0.4.2'', ''0.4.3''] \<noteq> []
   \<and> parse_release (last [''0.4.2'', ''0.4.3'']) = Inr [0, 4, 3]
   \<and> parse_release (last [''0.4.4'', ''0.4.5'']) = Inr [0, 4, 5]
   \<and> get_latest_version parse_release release_key
        (Inr [''0.4.4'', ''0.4.5'']) (Inr [''0.4.2'', ''0.4.3'']) = run_yield [0, 4, 5]"
proof -
  have h1: "[''0.4.4'', ''0.4.5''] \<noteq> []" and h2: "[''0.4.2'', ''0.4.3''] \<noteq> []"
    by simp_all
  have h3: "parse_release (last [''0.4.2'', ''0.4.3'']) = Inr [0, 4, 3]"
    by (simp add: instance_defs)
  have h4: "parse_release (last [''0.4.4'', ''0.4.5'']) = Inr [0, 4, 5]"
    by (simp add: instance_defs)
  from get_latest_version_selects_greater [OF h1 h2 h3 h4, where vkey = release_key,
        THEN conjunct1]
  obtain v where v: "get_latest_version parse_release release_key
        (Inr [''0.4.4'', ''0.4.5'']) (Inr [''0.4.2'', ''0.4.3'']) = run_yield v
      \<and> (v = [0, 4, 3] \<or> v = [0, 4, 5])
      \<and> release_key v = max (release_key [0, 4, 3]) (release_key [0, 4, 5])"
    by (rule exE)
  have "max (release_key [0, 4, 3]) (release_key [0, 4, 5]) = [0, 4, 5]"
    by (simp add: release_key_def max_def)
  with v have "v = [0, 4, 5]"
    by (auto simp: release_key_def)
  with v h1 h2 h3 h4 show ?thesis by simp
qed

section \<open>Network failures\<close>

text \<open>
  Claim C2, as stated, fails: when the tags fetch fails with an error that is not a
  \<^verbatim>\<open>URLError\<close> (here the body is not JSON) and the conda-forge fetch fails with a
  \<^verbatim>\<open>URLError\<close>, \<^verbatim>\<open>tags.result()\<close> raises first, the handler does not match, and the
  generator raises without any warning.
\<close>

theorem network_error_masked_by_tags_error:
  "raised (get_latest_version parse_release release_key
             (github_tags (Inl JSONDecodeError)) (conda_forge_releases (Inl URLError)))
     = Some JSONDecodeError
   \<and> warnings (get_latest_version parse_release release_key
             (github_tags (Inl JSONDecodeError)) (conda_forge_releases (Inl URLError))) = []"
  by (simp add: github_tags_def conda_forge_releases_def aggregator_defs run_raise_def)

text \<open>
  Claim C2, amended. When the tags fetch fails with an \<^verbatim>\<open>HTTPError\<close> or
  \<^verbatim>\<open>URLError\<close>, or the tags fetch succeeds and the conda-forge fetch fails with one,
  \<^verbatim>\<open>get_latest_version\<close> shows exactly one warning, yields no version (nothing from
  the source that succeeded, and no comparison: the result does not depend on
  \<open>parse\<close> or \<open>vkey\<close>) and does not raise.
\<close>

theorem network_error_one_warning:
  assumes "(\<exists>e. tags = Inl e \<and> is_URLError e)
         \<or> (\<exists>gh_tags e. tags = Inr gh_tags \<and> cf = Inl e \<and> is_URLError e)"
  shows "get_latest_version parse vkey tags cf = run_warning
       \<and> warnings (get_latest_version parse vkey tags cf) = [network_warning]
       \<and> yielded (get_latest_version parse vkey tags cf) = []
       \<and> raised (get_latest_version parse vkey tags cf) = None"
  using assms by (auto simp: get_latest_version_def fetch_both_def run_warning_def)

theorem network_error_one_warning_witness:
  "is_URLError HTTPError \<and> is_URLError URLError
   \<and> get_latest_version parse_release release_key (Inl HTTPError) (Inr [''0.4.3'']) = run_warning
   \<and> get_latest_version parse_release release_key (Inr [''0.4.5'']) (Inl URLError) = run_warning"
proof -
  have a: "(\<exists>e. (Inl HTTPError :: py_error + string list) = Inl e \<and> is_URLError e)
         \<or> (\<exists>gh_tags e. (Inl HTTPError :: py_error + string list) = Inr gh_tags
              \<and> (Inr [''0.4.3''] :: py_error + string list) = Inl e \<and> is_URLError e)"
    by simp
  have b: "(\<exists>e. (Inr [''0.4.5''] :: py_error + string list) = Inl e \<and> is_URLError e)
         \<or> (\<exists>gh_tags e. (Inr [''0.4.5''] :: py_error + string list) = Inr gh_tags
              \<and> (Inl URLError :: py_error + string list) = Inl e \<and> is_URLError e)"
    by simp
  show ?thesis
    using network_error_one_warning [OF a, of parse_release release_key]
      network_error_one_warning [OF b, of parse_release release_key]
    by simp
qed

section \<open>The snooze window\<close>

text \<open>
  Claim C3. When the record file holds a text that \<^verbatim>\<open>date.fromisoformat\<close> parses:
  if the age of the record in days is less than 21, \<^verbatim>\<open>_check_time\<close> returns true,
  sets \<^verbatim>\<open>self._snoozed\<close> and leaves the file in place; if the age is 21 days or
  more, it clears \<^verbatim>\<open>self._snoozed\<close>, deletes the file and returns false.
\<close>

theorem check_time_window:
  assumes "ignore_file (base_folder st) = Some (Text s)"
    and "fromisoformat D s = Inr old_date"
  shows "(toordinal D today - toordinal D old_date < 21 \<longrightarrow>
            check_time D today st = Inr (True, st\<lparr>snoozed := True\<rparr>)
            \<and> ignore_file (base_folder (st\<lparr>snoozed := True\<rparr>)) = Some (Text s))
       \<and> (21 \<le> toordinal D today - toordinal D old_date \<longrightarrow>
            check_time D today st = Inr (False, st\<lparr>snoozed := False, base_folder := Folder None\<rparr>))"
  using assms ignore_file_Some [OF assms(1)]
  by (simp add: check_time_def check_time_body_def IGNORE_DAYS_def)

theorem check_time_window_witness:
  "ignore_file (base_folder (init_checker [0, 4, 0 :: nat] (Folder (Some (Text ''2024-01-10'')))))
     = Some (Text ''2024-01-10'')
   \<and> fromisoformat ymd_api ''2024-01-10'' = Inr (Date 2024 1 10)
   \<and> toordinal ymd_api (Date 2024 1 30) - toordinal ymd_api (Date 2024 1 10) < 21
   \<and> check_time ymd_api (Date 2024 1 30)
        (init_checker [0, 4, 0 :: nat] (Folder (Some (Text ''2024-01-10''))))
      = Inr (True, (init_checker [0, 4, 0 :: nat] (Folder (Some (Text ''2024-01-10''))))
                     \<lparr>snoozed := True\<rparr>)
   \<and> 21 \<le> toordinal ymd_api (Date 2024 1 31) - toordinal ymd_api (Date 2024 1 10)
   \<and> check_time ymd_api (Date 2024 1 31)
        (init_checker [0, 4, 0 :: nat] (Folder (Some (Text ''2024-01-10''))))
      = Inr (False, (init_checker [0, 4, 0 :: nat] (Folder (Some (Text ''2024-01-10''))))
                     \<lparr>snoozed := False, base_folder := Folder None\<rparr>)"
proof -
  have h1: "ignore_file (base_folder (init_checker [0, 4, 0 :: nat]
              (Folder (Some (Text ''2024-01-10''))))) = Some (Text ''2024-01-10'')"
    by (simp add: init_checker_def)
  have h2: "fromisoformat ymd_api ''2024-01-10'' = Inr (Date 2024 1 10)"
    by (simp add: date_defs)
  have a1: "toordinal ymd_api (Date 2024 1 30) - toordinal ymd_api (Date 2024 1 10) < 21"
    by (simp add: date_defs)
  have a2: "21 \<le> toordinal ymd_api (Date 2024 1 31) - toordinal ymd_api (Date 2024 1 10)"
    by (simp add: date_defs)
  show ?thesis
    using h1 h2 a1 a2 check_time_window [OF h1 h2, of "Date 2024 1 30"]
      check_time_window [OF h1 h2, of "Date 2024 1 31"]
    by simp
qed

text \<open>
  Claim C4. The snooze action leaves today's date as the only content of the record
  file, whether the folder was missing, empty or held an older record (also when it
  is reached through the dialog of \<^verbatim>\<open>show_version_info\<close>). Provided the library
  parses what it printed for today, \<^verbatim>\<open>_check_time\<close> on that record returns true on
  the same day, and returns false (deleting the record) on any day that is 21 or
  more days later.
\<close>

theorem snooze_check_time_roundtrip:
  assumes "fromisoformat D (isoformat D today) = Inr today"
  shows "snooze D today fs = Inr (Folder (Some (Text (isoformat D today))))
     \<and> (vkey (current_version st) < vkey latest \<and> \<not> snoozed st \<longrightarrow>
          (\<exists>st1. show_version_info vkey vstr D on_bundle today Ignore st latest = Inr st1
             \<and> base_folder st1 = Folder (Some (Text (isoformat D today)))))
     \<and> (base_folder st' = Folder (Some (Text (isoformat D today))) \<longrightarrow>
          check_time D today st' = Inr (True, st'\<lparr>snoozed := True\<rparr>)
          \<and> (\<forall>later. 21 \<le> toordinal D later - toordinal D today \<longrightarrow>
                check_time D later st' =
                  Inr (False, st'\<lparr>snoozed := False, base_folder := Folder None\<rparr>)))"
  using assms
  by (auto simp: snooze_writes show_version_info_def Let_def check_time_def check_time_body_def
      IGNORE_DAYS_def)

theorem snooze_check_time_roundtrip_witness:
  "fromisoformat ymd_api (isoformat ymd_api (Date 2024 1 15)) = Inr (Date 2024 1 15)
   \<and> isoformat ymd_api (Date 2024 1 15) = ''2024-01-15''
   \<and> snooze ymd_api (Date 2024 1 15) NoFolder = Inr (Folder (Some (Text ''2024-01-15'')))
   \<and> check_time ymd_api (Date 2024 1 15)
        (init_checker [0, 4, 0 :: nat] (Folder (Some (Text ''2024-01-15''))))
       = Inr (True, (init_checker [0, 4, 0 :: nat] (Folder (Some (Text ''2024-01-15''))))
                      \<lparr>snoozed := True\<rparr>)
   \<and> 21 \<le> toordinal ymd_api (Date 2024 2 5) - toordinal ymd_api (Date 2024 1 15)
   \<and> check_time ymd_api (Date 2024 2 5)
        (init_checker [0, 4, 0 :: nat] (Folder (Some (Text ''2024-01-15''))))
       = Inr (False, (init_checker [0, 4, 0 :: nat] (Folder (Some (Text ''2024-01-15''))))
                       \<lparr>snoozed := False, base_folder := Folder None\<rparr>)
   \<and> base_folder (projr (show_version_info release_key release_str ymd_api False
        (Date 2024 1 15) Ignore (init_checker [0, 4, 0 :: nat] NoFolder) [0, 4, 5]))
       = Folder (Some (Text ''2024-01-15''))"
proof -
  have iso: "isoformat ymd_api (Date 2024 1 15) = ''2024-01-15''"
    by (simp add: date_defs)
  have h: "fromisoformat ymd_api (isoformat ymd_api (Date 2024 1 15)) = Inr (Date 2024 1 15)"
    by (simp add: date_defs)
  have f: "base_folder (init_checker [0, 4, 0 :: nat] (Folder (Some (Text ''2024-01-15''))))
             = Folder (Some (Text (isoformat ymd_api (Date 2024 1 15))))"
    by (simp add: init_checker_def date_defs)
  have a: "21 \<le> toordinal ymd_api (Date 2024 2 5) - toordinal ymd_api (Date 2024 1 15)"
    by (simp add: date_defs)
  note t = snooze_check_time_roundtrip [OF h, where fs = NoFolder
      and st' = "init_checker [0, 4, 0 :: nat] (Folder (Some (Text ''2024-01-15'')))"]
  have "snooze ymd_api (Date 2024 1 15) NoFolder
          = Inr (Folder (Some (Text (isoformat ymd_api (Date 2024 1 15)))))"
    by (rule t [THEN conjunct1])
  moreover note t [THEN conjunct2, THEN conjunct2, rule_format, OF f, THEN conjunct1]
  moreover note t [THEN conjunct2, THEN conjunct2, rule_format, OF f, THEN conjunct2,
                   rule_format, OF a]
  moreover have "base_folder (projr (show_version_info release_key release_str ymd_api False
        (Date 2024 1 15) Ignore (init_checker [0, 4, 0 :: nat] NoFolder) [0, 4, 5]))
       = Folder (Some (Text ''2024-01-15''))"
  proof -
    have c: "release_key (current_version (init_checker [0, 4, 0 :: nat] NoFolder))
               < release_key [0, 4, 5] \<and> \<not> snoozed (init_checker [0, 4, 0 :: nat] NoFolder)"
      by (simp add: init_checker_def release_key_def)
    from snooze_check_time_roundtrip [OF h, where vkey = release_key
        and st = "init_checker [0, 4, 0 :: nat] NoFolder" and latest = "[0, 4, 5]"
        and vstr = release_str and on_bundle = False,
        THEN conjunct2, THEN conjunct1, rule_format, OF c]
    obtain st1 where st1:
      "show_version_info release_key release_str ymd_api False (Date 2024 1 15) Ignore
         (init_checker [0, 4, 0 :: nat] NoFolder) [0, 4, 5] = Inr st1
       \<and> base_folder st1 = Folder (Some (Text (isoformat ymd_api (Date 2024 1 15))))"
      by (rule exE)
    show ?thesis
      using st1 [THEN conjunct1] st1 [THEN conjunct2] iso by simp
  qed
  ultimately show ?thesis using h iso a by simp
qed

text \<open>
  Claim C5. When the record file exists and its content is not a parseable ISO date
  (the text makes \<^verbatim>\<open>date.fromisoformat\<close> raise \<^verbatim>\<open>ValueError\<close>, or the bytes do not
  decode), \<^verbatim>\<open>_check_time\<close> raises nothing and returns false; the file is deleted and
  \<^verbatim>\<open>self._snoozed\<close> keeps the value it had.
\<close>

theorem check_time_corrupt_record:
  assumes "ignore_file (base_folder st) = Some f"
    and "f = Undecodable \<or> (\<exists>s. f = Text s \<and> fromisoformat D s = Inl ValueError)"
  shows "check_time D today st = Inr (False, st\<lparr>base_folder := Folder None\<rparr>)"
  using assms ignore_file_Some [OF assms(1)]
  by (auto simp: check_time_def check_time_body_def)

theorem check_time_corrupt_record_witness:
  "ignore_file (base_folder (init_checker [0, 4, 0 :: nat] (Folder (Some (Text ''soon'')))))
     = Some (Text ''soon'')
   \<and> fromisoformat ymd_api ''soon'' = Inl ValueError
   \<and> check_time ymd_api (Date 2024 1 30)
        (init_checker [0, 4, 0 :: nat] (Folder (Some (Text ''soon''))))
      = Inr (False, (init_checker [0, 4, 0 :: nat] (Folder (Some (Text ''soon''))))
                      \<lparr>base_folder := Folder None\<rparr>)
   \<and> check_time ymd_api (Date 2024 1 30)
        (init_checker [0, 4, 0 :: nat] (Folder (Some Undecodable)))
      = Inr (False, (init_checker [0, 4, 0 :: nat] (Folder (Some Undecodable)))
                      \<lparr>base_folder := Folder None\<rparr>)"
proof -
  have h1: "ignore_file (base_folder (init_checker [0, 4, 0 :: nat]
              (Folder (Some (Text ''soon''))))) = Some (Text ''soon'')"
    by (simp add: init_checker_def)
  have p: "fromisoformat ymd_api ''soon'' = Inl ValueError"
    by (simp add: date_defs)
  then have h2: "Text ''soon'' = Undecodable
       \<or> (\<exists>s. Text ''soon'' = Text s \<and> fromisoformat ymd_api s = Inl ValueError)"
    by simp
  have h3: "ignore_file (base_folder (init_checker [0, 4, 0 :: nat] (Folder (Some Undecodable))))
              = Some Undecodable"
    by (simp add: init_checker_def)
  have h4: "Undecodable = Undecodable
       \<or> (\<exists>s. Undecodable = Text s \<and> fromisoformat ymd_api s = Inl ValueError)"
    by simp
  show ?thesis
    using h1 p check_time_corrupt_record [OF h1 h2, of "Date 2024 1 30"]
      check_time_corrupt_record [OF h3 h4, of "Date 2024 1 30"]
    by simp
qed

section \<open>The update notice\<close>

text \<open>
  Claim C6. Whenever the latest version is greater than the installed one,
  \<^verbatim>\<open>show_version_info\<close> sets the label to the update text, and it opens the modal
  dialog if and only if \<^verbatim>\<open>self._snoozed\<close> is false. For a whole check with a record
  younger than 21 days: the label is set and no dialog opens.
\<close>

theorem update_notice_label_and_dialog:
  assumes "vkey (current_version st) < vkey latest"
  shows "(\<exists>st'. show_version_info vkey vstr D on_bundle today answer st latest = Inr st'
      \<and> label_text st' = outdated_msg (vstr (current_version st)) (vstr latest)
                            (if on_bundle then URL_BUNDLE else URL_PACKAGE)
      \<and> dialogs st' =
          (if snoozed st then dialogs st
           else dialogs st @ [outdated_msg (vstr (current_version st)) (vstr latest)
                               (if on_bundle then URL_BUNDLE else URL_PACKAGE)]))
    \<and> (ignore_file (base_folder st) = Some (Text s) \<and> fromisoformat D s = Inr old_date
         \<and> toordinal D today - toordinal D old_date < 21
         \<and> get_latest_version parse vkey tags cf = run_yield latest \<longrightarrow>
        check parse vkey vstr D on_bundle today answer tags cf st =
          Inr (st\<lparr>snoozed := True,
                  label_text := outdated_msg (vstr (current_version st)) (vstr latest)
                                  (if on_bundle then URL_BUNDLE else URL_PACKAGE)\<rparr>))"
proof (intro conjI impI)
  show "\<exists>st'. show_version_info vkey vstr D on_bundle today answer st latest = Inr st'
      \<and> label_text st' = outdated_msg (vstr (current_version st)) (vstr latest)
                            (if on_bundle then URL_BUNDLE else URL_PACKAGE)
      \<and> dialogs st' =
          (if snoozed st then dialogs st
           else dialogs st @ [outdated_msg (vstr (current_version st)) (vstr latest)
                               (if on_bundle then URL_BUNDLE else URL_PACKAGE)])"
    by (simp add: show_version_info_outdated [OF assms])
next
  assume a: "ignore_file (base_folder st) = Some (Text s) \<and> fromisoformat D s = Inr old_date
         \<and> toordinal D today - toordinal D old_date < 21
         \<and> get_latest_version parse vkey tags cf = run_yield latest"
  then have ct: "check_time D today st = Inr (True, st\<lparr>snoozed := True\<rparr>)"
    using ignore_file_Some [of "base_folder st" "Text s"]
    by (simp add: check_time_def check_time_body_def IGNORE_DAYS_def)
  have gt: "vkey (current_version (st\<lparr>snoozed := True\<rparr>)) < vkey latest"
    using assms by simp
  show "check parse vkey vstr D on_bundle today answer tags cf st =
          Inr (st\<lparr>snoozed := True,
                  label_text := outdated_msg (vstr (current_version st)) (vstr latest)
                                  (if on_bundle then URL_BUNDLE else URL_PACKAGE)\<rparr>)"
    using a ct show_version_info_outdated [OF gt, of vstr D on_bundle today answer]
    by (simp add: check_def run_yield_def)
qed

theorem update_notice_label_and_dialog_witness:
  "release_key (current_version (init_checker [0, 4, 0 :: nat] (Folder None))) < release_key [0, 4, 5]
   \<and> dialogs (projr (show_version_info release_key release_str ymd_api False
        (Date 2024 1 15) Ok (init_checker [0, 4, 0 :: nat] (Folder None)) [0, 4, 5]))
      = [outdated_msg ''0.4.0'' ''0.4.5'' URL_PACKAGE]
   \<and> label_text (projr (show_version_info release_key release_str ymd_api
        False (Date 2024 1 15) Ok
        ((init_checker [0, 4, 0 :: nat] (Folder None))\<lparr>snoozed := True\<rparr>) [0, 4, 5]))
      = outdated_msg ''0.4.0'' ''0.4.5'' URL_PACKAGE
   \<and> dialogs (projr (show_version_info release_key release_str ymd_api
        False (Date 2024 1 15) Ok
        ((init_checker [0, 4, 0 :: nat] (Folder None))\<lparr>snoozed := True\<rparr>) [0, 4, 5])) = []
   \<and> toordinal ymd_api (Date 2024 1 15) - toordinal ymd_api (Date 2024 1 10) < 21
   \<and> check parse_release release_key release_str ymd_api False (Date 2024 1 15) Ok
        (Inr [''0.4.5'']) (Inr [''0.4.3''])
        (init_checker [0, 4, 0] (Folder (Some (Text ''2024-01-10''))))
      = Inr ((init_checker [0, 4, 0] (Folder (Some (Text ''2024-01-10''))))
               \<lparr>snoozed := True, label_text := outdated_msg ''0.4.0'' ''0.4.5'' URL_PACKAGE\<rparr>)"
proof -
  have g: "release_key (current_version (init_checker [0, 4, 0 :: nat] (Folder None)))
             < release_key [0, 4, 5]"
    by (simp add: init_checker_def release_key_def)
  have g': "release_key (current_version
               ((init_checker [0, 4, 0 :: nat] (Folder None))\<lparr>snoozed := True\<rparr>))
             < release_key [0, 4, 5]"
    by (simp add: init_checker_def release_key_def)
  have s1: "release_str (current_version (init_checker [0, 4, 0 :: nat] (Folder None))) = ''0.4.0''"
    and s2: "release_str [0, 4, 5] = ''0.4.5''"
    by (simp_all add: init_checker_def release_str_def digit_char_def)
  have n: "\<not> snoozed (init_checker [0, 4, 0 :: nat] (Folder None))"
    and d: "dialogs (init_checker [0, 4, 0 :: nat] (Folder None)) = []"
    by (simp_all add: init_checker_def)
  from update_notice_label_and_dialog [OF g, where vstr = release_str and D = ymd_api
      and on_bundle = False and today = "Date 2024 1 15" and answer = Ok, THEN conjunct1]
  obtain st1 where st1:
    "show_version_info release_key release_str ymd_api False (Date 2024 1 15) Ok
        (init_checker [0, 4, 0 :: nat] (Folder None)) [0, 4, 5] = Inr st1
     \<and> label_text st1 =
       outdated_msg (release_str (current_version (init_checker [0, 4, 0 :: nat] (Folder None))))
         (release_str [0, 4, 5]) (if False then URL_BUNDLE else URL_PACKAGE)
     \<and> dialogs st1 =
       (if snoozed (init_checker [0, 4, 0 :: nat] (Folder None))
        then dialogs (init_checker [0, 4, 0 :: nat] (Folder None))
        else dialogs (init_checker [0, 4, 0 :: nat] (Folder None))
             @ [outdated_msg
                  (release_str (current_version (init_checker [0, 4, 0 :: nat] (Folder None))))
                  (release_str [0, 4, 5]) (if False then URL_BUNDLE else URL_PACKAGE)])"
    by (rule exE)
  from update_notice_label_and_dialog [OF g', where vstr = release_str and D = ymd_api
      and on_bundle = False and today = "Date 2024 1 15" and answer = Ok, THEN conjunct1]
  obtain st2 where st2:
    "show_version_info release_key release_str ymd_api False (Date 2024 1 15) Ok
        ((init_checker [0, 4, 0 :: nat] (Folder None))\<lparr>snoozed := True\<rparr>) [0, 4, 5] = Inr st2
     \<and> label_text st2 =
       outdated_msg (release_str (current_version
           ((init_checker [0, 4, 0 :: nat] (Folder None))\<lparr>snoozed := True\<rparr>)))
         (release_str [0, 4, 5]) (if False then URL_BUNDLE else URL_PACKAGE)
     \<and> dialogs st2 =
       (if snoozed ((init_checker [0, 4, 0 :: nat] (Folder None))\<lparr>snoozed := True\<rparr>)
        then dialogs ((init_checker [0, 4, 0 :: nat] (Folder None))\<lparr>snoozed := True\<rparr>)
        else dialogs ((init_checker [0, 4, 0 :: nat] (Folder None))\<lparr>snoozed := True\<rparr>)
             @ [outdated_msg (release_str (current_version
                    ((init_checker [0, 4, 0 :: nat] (Folder None))\<lparr>snoozed := True\<rparr>)))
                  (release_str [0, 4, 5]) (if False then URL_BUNDLE else URL_PACKAGE)])"
    by (rule exE)
  have "dialogs st1 = [outdated_msg ''0.4.0'' ''0.4.5'' URL_PACKAGE]"
    using st1 [THEN conjunct2, THEN conjunct2] n d s1 s2 by simp
  moreover have "label_text st2 = outdated_msg ''0.4.0'' ''0.4.5'' URL_PACKAGE"
    using st2 [THEN conjunct2, THEN conjunct1] s1 s2 by simp
  moreover have "dialogs st2 = []"
    using st2 [THEN conjunct2, THEN conjunct2] d by simp
  moreover have "toordinal ymd_api (Date 2024 1 15) - toordinal ymd_api (Date 2024 1 10) < 21
   \<and> check parse_release release_key release_str ymd_api False (Date 2024 1 15) Ok
        (Inr [''0.4.5'']) (Inr [''0.4.3''])
        (init_checker [0, 4, 0] (Folder (Some (Text ''2024-01-10''))))
      = Inr ((init_checker [0, 4, 0] (Folder (Some (Text ''2024-01-10''))))
               \<lparr>snoozed := True, label_text := outdated_msg ''0.4.0'' ''0.4.5'' URL_PACKAGE\<rparr>)"
  proof -
    have k: "release_key (current_version (init_checker [0, 4, 0 :: nat]
                (Folder (Some (Text ''2024-01-10''))))) < release_key [0, 4, 5]"
      by (simp add: init_checker_def release_key_def)
    have s3: "release_str (current_version (init_checker [0, 4, 0 :: nat]
                (Folder (Some (Text ''2024-01-10''))))) = ''0.4.0''"
      by (simp add: init_checker_def release_str_def digit_char_def)
    have r: "ignore_file (base_folder (init_checker [0, 4, 0 :: nat]
                (Folder (Some (Text ''2024-01-10''))))) = Some (Text ''2024-01-10'')
           \<and> fromisoformat ymd_api ''2024-01-10'' = Inr (Date 2024 1 10)
           \<and> toordinal ymd_api (Date 2024 1 15) - toordinal ymd_api (Date 2024 1 10) < 21
           \<and> get_latest_version parse_release release_key (Inr [''0.4.5'']) (Inr [''0.4.3''])
               = run_yield [0, 4, 5]"
      by (simp add: init_checker_def date_defs aggregator_defs instance_defs)
    show ?thesis
      using update_notice_label_and_dialog [OF k, where vstr = release_str and D = ymd_api
          and on_bundle = False and today = "Date 2024 1 15" and answer = Ok
          and parse = parse_release and tags = "Inr [''0.4.5'']" and cf = "Inr [''0.4.3'']"
          and s = "''2024-01-10''" and old_date = "Date 2024 1 10",
          THEN conjunct2, rule_format, OF r] r s3 s2
      by simp
  qed
  ultimately show ?thesis using g st1 [THEN conjunct1] st2 [THEN conjunct1] by simp
qed

section \<open>The prefix of a tag\<close>

text \<open>
  Claim C7. A tag \<^verbatim>\<open>"v" + s\<close> reaches the parser as \<^verbatim>\<open>s\<close>: the first tag of the
  response, stripped, is the last element of what \<^verbatim>\<open>github_tags\<close> returns. When
  \<^verbatim>\<open>s\<close> is an unprefixed version string, the tag \<^verbatim>\<open>"v" + s\<close> and the tag \<^verbatim>\<open>s\<close> give
  the same list. In the comparison of \<^verbatim>\<open>get_latest_version\<close>, the tag \<^verbatim>\<open>"v" + s\<close>
  against the conda-forge version \<^verbatim>\<open>s\<close> is a comparison of one parsed version with
  itself, and that version is the result; so for \<^verbatim>\<open>v0.5.0\<close> against \<^verbatim>\<open>0.5.0\<close>.
\<close>

theorem v_prefix_stripped:
  "github_tags (Inr (Some (CHR ''v'' # s) # data)) = Inr (rev (github_tags_loop [] data) @ [s])
   \<and> (s \<noteq> [] \<and> \<not> startswith_v s \<longrightarrow>
        github_tags (Inr (Some (CHR ''v'' # s) # data)) = github_tags (Inr (Some s # data)))
   \<and> (parse s = Inr v \<longrightarrow>
        get_latest_version parse vkey
          (github_tags (Inr (Some (CHR ''v'' # s) # data)))
          (conda_forge_releases (Inr (Some (versions @ [s])))) = run_yield v)
   \<and> get_latest_version parse_release release_key
        (github_tags (Inr [Some ''v0.5.0'']))
        (conda_forge_releases (Inr (Some [''0.5.0'']))) = run_yield [0, 5, 0]"
proof (intro conjI impI)
  show "github_tags (Inr (Some (CHR ''v'' # s) # data)) = Inr (rev (github_tags_loop [] data) @ [s])"
    by (rule github_tags_v)
  show "github_tags (Inr (Some (CHR ''v'' # s) # data)) = github_tags (Inr (Some s # data))"
    if "s \<noteq> [] \<and> \<not> startswith_v s"
    using that by (simp add: github_tags_v github_tags_plain)
  show "get_latest_version parse vkey
          (github_tags (Inr (Some (CHR ''v'' # s) # data)))
          (conda_forge_releases (Inr (Some (versions @ [s])))) = run_yield v"
    if "parse s = Inr v"
    using that
    by (simp add: github_tags_v conda_forge_releases_def aggregator_defs)
  show "get_latest_version parse_release release_key
        (github_tags (Inr [Some ''v0.5.0'']))
        (conda_forge_releases (Inr (Some [''0.5.0'']))) = run_yield [0, 5, 0]"
    by (simp add: github_tags_def conda_forge_releases_def aggregator_defs instance_defs)
qed

theorem v_prefix_stripped_witness:
  "''0.5.0'' \<noteq> [] \<and> \<not> startswith_v ''0.5.0'' \<and> parse_release ''0.5.0'' = Inr [0, 5, 0]
   \<and> github_tags (Inr [Some ''v0.5.0'', Some ''v0.4.19''])
       = github_tags (Inr [Some ''0.5.0'', Some ''v0.4.19''])
   \<and> get_latest_version parse_release release_key
        (github_tags (Inr [Some ''v0.5.0'', Some ''v0.4.19'']))
        (conda_forge_releases (Inr (Some [''0.4.19'', ''0.5.0'']))) = run_yield [0, 5, 0]"
proof -
  have h: "''0.5.0'' \<noteq> [] \<and> \<not> startswith_v ''0.5.0''"
    by simp
  have p: "parse_release ''0.5.0'' = Inr [0, 5, 0]"
    by (simp add: instance_defs)
  note t = v_prefix_stripped [where s = "''0.5.0''" and data = "[Some ''v0.4.19'']"
      and parse = parse_release and v = "[0, 5, 0]" and vkey = release_key
      and versions = "[''0.4.19'']"]
  show ?thesis
    using h p t [THEN conjunct2, THEN conjunct1, rule_format, OF h]
      t [THEN conjunct2, THEN conjunct2, THEN conjunct1, rule_format, OF p]
    by simp
qed

section \<open>Ties\<close>

text \<open>
  Claim C8, as stated, fails: on a tie the \<^verbatim>\<open>else\<close> branch yields \<^verbatim>\<open>latest_tag\<close>,
  the value parsed from the tags (catalog A). It shows when the two catalogs spell
  the same version differently: tags \<^verbatim>\<open>v0.5.0\<close> and conda-forge \<^verbatim>\<open>0.5\<close> compare
  equal, and the value yielded is the one that prints \<^verbatim>\<open>0.5.0\<close>.
\<close>

theorem tie_yields_tag_not_conda_forge:
  "parse_release ''0.5'' = Inr [0, 5]
   \<and> parse_release ''0.5.0'' = Inr [0, 5, 0]
   \<and> release_key [0, 5] = release_key [0, 5, 0]
   \<and> yielded (get_latest_version parse_release release_key
                (github_tags (Inr [Some ''v0.5.0'']))
                (conda_forge_releases (Inr (Some [''0.5''])))) = [[0, 5, 0]]
   \<and> release_str [0, 5, 0] = ''0.5.0'' \<and> release_str [0, 5] = ''0.5''"
  by (simp add: github_tags_def conda_forge_releases_def aggregator_defs instance_defs
      run_yield_def)

text \<open>
  Claim C8, amended. When both fetches succeed and the two latest versions compare
  equal, the value yielded by \<^verbatim>\<open>get_latest_version\<close> is the one parsed from the
  first source, the tags (catalog A).
\<close>

theorem tie_yields_tag:
  assumes "gh_tags \<noteq> []" and "cf_versions \<noteq> []"
    and "parse (last cf_versions) = Inr latest_version"
    and "parse (last gh_tags) = Inr latest_tag"
    and "vkey latest_version = vkey latest_tag"
  shows "get_latest_version parse vkey (Inr gh_tags) (Inr cf_versions) = run_yield latest_tag"
  using assms by (simp add: aggregator_defs)

theorem tie_yields_tag_witness:
  "[''0.5.0''] \<noteq> [] \<and> [''0.5''] \<noteq> []
   \<and> parse_release (last [''0.5'']) = Inr [0, 5]
   \<and> parse_release (last [''0.5.0'']) = Inr [0, 5, 0]
   \<and> release_key [0, 5] = release_key [0, 5, 0]
   \<and> get_latest_version parse_release release_key (Inr [''0.5.0'']) (Inr [''0.5''])
       = run_yield [0, 5, 0]"
proof -
  have h1: "[''0.5.0''] \<noteq> []" and h2: "[''0.5''] \<noteq> []"
    by simp_all
  have h3: "parse_release (last [''0.5'']) = Inr [0, 5]"
    by (simp add: instance_defs)
  have h4: "parse_release (last [''0.5.0'']) = Inr [0, 5, 0]"
    by (simp add: instance_defs)
  have h5: "release_key [0, 5] = release_key [0, 5, 0]"
    by (simp add: release_key_def)
  show ?thesis
    using h1 h2 h3 h4 h5 tie_yields_tag [OF h1 h2 h3 h4 h5]
    by simp
qed

section \<open>A record removed from outside\<close>

text \<open>
  Claim C9 does not hold of the code. A first check on 15 January finds a record of
  10 January: \<^verbatim>\<open>self._snoozed\<close> becomes true and no dialog opens. The file is then
  removed from outside. On the next check \<^verbatim>\<open>_check_time\<close> returns false, yet it
  assigns \<^verbatim>\<open>self._snoozed\<close> only inside the \<^verbatim>\<open>with\<close> block, so the flag is still
  true and \<^verbatim>\<open>show_version_info\<close> opens no dialog. The same check on a fresh widget
  with no record opens it.
\<close>

theorem removed_record_still_suppresses_dialog:
  "check parse_release release_key release_str ymd_api False (Date 2024 1 15) Ok
     (github_tags (Inr [Some ''v0.4.5''])) (conda_forge_releases (Inr (Some [''0.4.3''])))
     (init_checker [0, 4, 0] (Folder (Some (Text ''2024-01-10''))))
   = Inr ((init_checker [0, 4, 0] (Folder (Some (Text ''2024-01-10''))))
            \<lparr>snoozed := True, label_text := outdated_msg ''0.4.0'' ''0.4.5'' URL_PACKAGE\<rparr>)
   \<and> check_time ymd_api (Date 2024 1 16)
        ((init_checker [0, 4, 0 :: nat] (Folder None))
            \<lparr>snoozed := True, label_text := outdated_msg ''0.4.0'' ''0.4.5'' URL_PACKAGE\<rparr>)
      = Inr (False, (init_checker [0, 4, 0] (Folder None))
            \<lparr>snoozed := True, label_text := outdated_msg ''0.4.0'' ''0.4.5'' URL_PACKAGE\<rparr>)
   \<and> check parse_release release_key release_str ymd_api False (Date 2024 1 16) Ok
        (github_tags (Inr [Some ''v0.4.5''])) (conda_forge_releases (Inr (Some [''0.4.3''])))
        ((init_checker [0, 4, 0] (Folder None))
            \<lparr>snoozed := True, label_text := outdated_msg ''0.4.0'' ''0.4.5'' URL_PACKAGE\<rparr>)
      = Inr ((init_checker [0, 4, 0] (Folder None))
            \<lparr>snoozed := True, label_text := outdated_msg ''0.4.0'' ''0.4.5'' URL_PACKAGE\<rparr>)
   \<and> dialogs ((init_checker [0, 4, 0 :: nat] (Folder None))
            \<lparr>snoozed := True, label_text := outdated_msg ''0.4.0'' ''0.4.5'' URL_PACKAGE\<rparr>) = []
   \<and> check parse_release release_key release_str ymd_api False (Date 2024 1 16) Ok
        (github_tags (Inr [Some ''v0.4.5''])) (conda_forge_releases (Inr (Some [''0.4.3''])))
        (init_checker [0, 4, 0] (Folder None))
      = Inr ((init_checker [0, 4, 0] (Folder None))
            \<lparr>label_text := outdated_msg ''0.4.0'' ''0.4.5'' URL_PACKAGE,
             dialogs := [outdated_msg ''0.4.0'' ''0.4.5'' URL_PACKAGE]\<rparr>)"
proof (intro conjI)
  show "check parse_release release_key release_str ymd_api False (Date 2024 1 15) Ok
     (github_tags (Inr [Some ''v0.4.5''])) (conda_forge_releases (Inr (Some [''0.4.3''])))
     (init_checker [0, 4, 0] (Folder (Some (Text ''2024-01-10''))))
   = Inr ((init_checker [0, 4, 0] (Folder (Some (Text ''2024-01-10''))))
            \<lparr>snoozed := True, label_text := outdated_msg ''0.4.0'' ''0.4.5'' URL_PACKAGE\<rparr>)"
    by (simp add: check_defs aggregator_defs instance_defs date_defs)
  show "check_time ymd_api (Date 2024 1 16)
        ((init_checker [0, 4, 0 :: nat] (Folder None))
            \<lparr>snoozed := True, label_text := outdated_msg ''0.4.0'' ''0.4.5'' URL_PACKAGE\<rparr>)
      = Inr (False, (init_checker [0, 4, 0] (Folder None))
            \<lparr>snoozed := True, label_text := outdated_msg ''0.4.0'' ''0.4.5'' URL_PACKAGE\<rparr>)"
    by (simp add: check_time_def init_checker_def)
  show "check parse_release release_key release_str ymd_api False (Date 2024 1 16) Ok
        (github_tags (Inr [Some ''v0.4.5''])) (conda_forge_releases (Inr (Some [''0.4.3''])))
        ((init_checker [0, 4, 0] (Folder None))
            \<lparr>snoozed := True, label_text := outdated_msg ''0.4.0'' ''0.4.5'' URL_PACKAGE\<rparr>)
      = Inr ((init_checker [0, 4, 0] (Folder None))
            \<lparr>snoozed := True, label_text := outdated_msg ''0.4.0'' ''0.4.5'' URL_PACKAGE\<rparr>)"
    by (simp add: check_defs aggregator_defs instance_defs)
  show "dialogs ((init_checker [0, 4, 0 :: nat] (Folder None))
            \<lparr>snoozed := True, label_text := outdated_msg ''0.4.0'' ''0.4.5'' URL_PACKAGE\<rparr>) = []"
    by (simp add: init_checker_def)
  show "check parse_release release_key release_str ymd_api False (Date 2024 1 16) Ok
        (github_tags (Inr [Some ''v0.4.5''])) (conda_forge_releases (Inr (Some [''0.4.3''])))
        (init_checker [0, 4, 0] (Folder None))
      = Inr ((init_checker [0, 4, 0] (Folder None))
            \<lparr>label_text := outdated_msg ''0.4.0'' ''0.4.5'' URL_PACKAGE,
             dialogs := [outdated_msg ''0.4.0'' ''0.4.5'' URL_PACKAGE]\<rparr>)"
    by (simp add: check_defs aggregator_defs instance_defs)
qed

section \<open>Empty catalogs\<close>

text \<open>
  Claim C10, as stated, fails: with an empty list of tags and a conda-forge list
  whose last element does not parse, \<^verbatim>\<open>cf_versions[-1]\<close> is parsed first and the
  exception that leaves the generator is the parse failure, not an \<^verbatim>\<open>IndexError\<close>.
\<close>

theorem empty_tags_parse_failure_first:
  "raised (get_latest_version parse_release release_key
             (github_tags (Inr [])) (conda_forge_releases (Inr (Some [''bogus'']))))
     = Some InvalidVersion"
  by (simp add: github_tags_def conda_forge_releases_def aggregator_defs instance_defs
      run_raise_def)

text \<open>
  Claim C10, amended. When both fetches succeed and either list is empty,
  \<^verbatim>\<open>get_latest_version\<close> raises, yields nothing and shows no warning (the handler of
  the network errors is not involved). The exception is an \<^verbatim>\<open>IndexError\<close> when the
  conda-forge list is empty, or when its last element parses and the list of tags
  is empty; when its last element does not parse, it is that parse failure.
\<close>

theorem empty_list_raises:
  assumes "gh_tags = [] \<or> cf_versions = []"
  shows "get_latest_version parse vkey (Inr gh_tags) (Inr cf_versions) =
           run_raise (if cf_versions = [] then IndexError
                      else case parse (last cf_versions) of Inl e \<Rightarrow> e | Inr v \<Rightarrow> IndexError)
       \<and> warnings (get_latest_version parse vkey (Inr gh_tags) (Inr cf_versions)) = []
       \<and> yielded (get_latest_version parse vkey (Inr gh_tags) (Inr cf_versions)) = []"
  using assms by (auto simp: aggregator_defs run_raise_def split: sum.splits)

theorem empty_list_raises_witness:
  "get_latest_version parse_release release_key (Inr []) (Inr [''0.4.3'']) = run_raise IndexError
   \<and> get_latest_version parse_release release_key (Inr [''0.4.5'']) (Inr []) = run_raise IndexError"
proof -
  have a: "([] :: string list) = [] \<or> [''0.4.3''] = []" by simp
  have b: "[''0.4.5''] = [] \<or> ([] :: string list) = []" by simp
  have p: "parse_release (last [''0.4.3'']) = Inr [0, 4, 3]"
    by (simp add: instance_defs)
  show ?thesis
    using empty_list_raises [OF a, of parse_release release_key]
      empty_list_raises [OF b, of parse_release release_key] p
    by simp
qed

end
